theory Spec2Isabelle
  imports Main "HOL-Library.AList"
begin

text \<open>
  A shallow embedding of the command line layer of Pyarmor, \<^verbatim>\<open>src/cli/__main__.py\<close>: the
  argument schema of the \<^verbatim>\<open>gen\<close> command, the options normalizer \<^verbatim>\<open>format_gen_args\<close>, the
  validator \<^verbatim>\<open>check_gen_context\<close>, the dispatcher \<^verbatim>\<open>cmd_gen\<close> with its handlers, and the
  top-level handler \<^verbatim>\<open>main\<close> with \<^verbatim>\<open>log_exception\<close>. Exceptions are values of a sum type,
  calls on collaborators are recorded as events, and the logging state is passed
  explicitly.
\<close>

section \<open>Python values, exceptions and attribute access\<close>

text \<open>
  The command line layer of \<^verbatim>\<open>src/cli/__main__.py\<close> handles flags whose values are
  \<^verbatim>\<open>None\<close>, booleans, integers, strings and lists of strings. \<open>PFunc\<close> stands for the
  handler that \<^verbatim>\<open>set_defaults(func=...)\<close> stores in the namespace.
\<close>

datatype pyval = PNone | PBool bool | PInt int | PStr string | PList "string list" | PFunc string

text \<open>
  The first argument of an exception: a literal text, or a format string interpolated
  with one value (\<^verbatim>\<open>fmt % value\<close>, kept symbolic so that Python's \<^verbatim>\<open>repr\<close> is not needed).
\<close>

datatype message = Plain string | Interp string pyval

text \<open>
  Subclasses of \<^verbatim>\<open>Exception\<close>. \<open>CliError m vs\<close> is \<^verbatim>\<open>CliError(m, *vs)\<close>; \<open>OtherError\<close> is any
  exception class the code does not name.
\<close>

datatype error =
    CliError message "pyval list"
  | AttributeError string
  | KeyError string
  | IndexError
  | TypeError
  | FileNotFoundError
  | OtherError string

fun truthy :: "pyval \<Rightarrow> bool" where
  "truthy PNone = False"
| "truthy (PBool b) = b"
| "truthy (PInt n) = (n \<noteq> 0)"
| "truthy (PStr s) = (s \<noteq> [])"
| "truthy (PList xs) = (xs \<noteq> [])"
| "truthy (PFunc f) = True"

text \<open>
  An \<^verbatim>\<open>argparse.Namespace\<close> and a \<^verbatim>\<open>dict\<close> keyed by strings are association lists:
  \<^verbatim>\<open>d[k] = v\<close> is \<open>AList.update k v d\<close>, which keeps the insertion order as Python does.
\<close>

type_synonym namespace = "(string \<times> pyval) list"

type_synonym options = "(string \<times> pyval) list"

definition getattr :: "namespace \<Rightarrow> string \<Rightarrow> error + pyval" where
  "getattr args x = (case map_of args x of None \<Rightarrow> Inl (AttributeError x) | Some v \<Rightarrow> Inr v)"

definition bind :: "error + 'a \<Rightarrow> ('a \<Rightarrow> error + 'b) \<Rightarrow> error + 'b" where
  "bind r f = (case r of Inl e \<Rightarrow> Inl e | Inr v \<Rightarrow> f v)"

text \<open>\<^verbatim>\<open>v > k\<close> for an integer \<open>k\<close>: booleans compare as 0 and 1, other types raise.\<close>

fun py_gt :: "pyval \<Rightarrow> int \<Rightarrow> error + bool" where
  "py_gt (PInt n) k = Inr (n > k)"
| "py_gt (PBool b) k = Inr ((if b then 1 else 0) > k)"
| "py_gt v k = Inl TypeError"

text \<open>Iterating a value: a list yields its items, a string its characters.\<close>

fun py_iter :: "pyval \<Rightarrow> error + string list" where
  "py_iter (PList xs) = Inr xs"
| "py_iter (PStr s) = Inr (map (\<lambda>c. [c]) s)"
| "py_iter v = Inl TypeError"

fun join :: "string \<Rightarrow> string list \<Rightarrow> string" where
  "join sep [] = []"
| "join sep [x] = x"
| "join sep (x # y # ys) = x @ sep @ join sep (y # ys)"

definition startswith :: "string \<Rightarrow> string \<Rightarrow> bool" where
  "startswith s p = (take (length p) s = p)"

text \<open>\<^verbatim>\<open>os.path.join(a, b)\<close> of \<^verbatim>\<open>posixpath\<close>.\<close>

definition path_join :: "string \<Rightarrow> string \<Rightarrow> string" where
  "path_join a b =
     (if startswith b ''/'' then b
      else if a = [] \<or> last a = CHR ''/'' then a @ b
      else a @ ''/'' @ b)"

text \<open>\<^verbatim>\<open>str.lower\<close> on ASCII letters; other characters are left as they are.\<close>

definition lower_char :: "char \<Rightarrow> char" where
  "lower_char c =
     (case map_of (zip ''ABCDEFGHIJKLMNOPQRSTUVWXYZ'' ''abcdefghijklmnopqrstuvwxyz'') c of
        None \<Rightarrow> c
      | Some l \<Rightarrow> l)"

definition lower :: "string \<Rightarrow> string" where
  "lower s = map lower_char s"

text \<open>\<^verbatim>\<open>len(v)\<close>, \<^verbatim>\<open>v[0]\<close>, \<^verbatim>\<open>v[1]\<close> and \<^verbatim>\<open>v[1:]\<close> on lists and strings.\<close>

fun py_len :: "pyval \<Rightarrow> error + nat" where
  "py_len (PList xs) = Inr (length xs)"
| "py_len (PStr s) = Inr (length s)"
| "py_len v = Inl TypeError"

fun py_item :: "pyval \<Rightarrow> nat \<Rightarrow> error + string" where
  "py_item (PList xs) i = (if i < length xs then Inr (xs ! i) else Inl IndexError)"
| "py_item (PStr s) i = (if i < length s then Inr [s ! i] else Inl IndexError)"
| "py_item v i = Inl TypeError"

fun py_slice_from1 :: "pyval \<Rightarrow> error + pyval" where
  "py_slice_from1 (PList xs) = Inr (PList (drop 1 xs))"
| "py_slice_from1 (PStr s) = Inr (PStr (drop 1 s))"
| "py_slice_from1 v = Inl TypeError"

fun as_str :: "pyval \<Rightarrow> error + string" where
  "as_str (PStr s) = Inr s"
| "as_str v = Inl TypeError"

section \<open>The argument schema of the \<^verbatim>\<open>gen\<close> command\<close>

text \<open>
  What the operator wrote on the command line, one field per destination of
  \<^verbatim>\<open>main_parser\<close> and \<^verbatim>\<open>gen_parser\<close>: a \<^verbatim>\<open>store_true\<close> flag is a boolean (given or not), a
  valued option is \<open>None\<close> when absent, an \<^verbatim>\<open>append\<close> option is the list of its occurrences.
\<close>

record gen_cli =
  cli_version :: bool
  cli_silent :: bool
  cli_debug :: bool
  cli_interactive :: bool
  cli_home :: "string option"
  cli_output :: "string option"
  cli_pack :: "string option"
  cli_no_runtime :: bool
  cli_recursive :: bool
  cli_findall :: bool
  cli_includes :: "string list"
  cli_excludes :: "string list"
  cli_obf_module :: "int option"
  cli_obf_code :: "int option"
  cli_no_wrap :: bool
  cli_mix_str :: bool
  cli_mix_name :: bool
  cli_enable_bcc :: bool
  cli_enable_rft :: bool
  cli_enable_jit :: bool
  cli_enable_themida :: bool
  cli_assert_call :: bool
  cli_assert_import :: bool
  cli_enables :: "string list"
  cli_restrict_module :: "int option"
  cli_relative_import :: bool
  cli_relative :: "string option"
  cli_platforms :: "string list"
  cli_outer :: "string option"
  cli_expired :: "string option"
  cli_period :: "int option"
  cli_devices :: "string list"
  cli_bind_interp :: "string option"
  cli_hook :: "string option"
  cli_inputs :: "string list"

text \<open>The value argparse stores for each kind of action.\<close>

definition store_true :: "bool \<Rightarrow> pyval" where
  "store_true given = PBool given"

definition store_true_default_none :: "bool \<Rightarrow> pyval" where
  "store_true_default_none given = (if given then PBool True else PNone)"

definition store_const_default_none :: "pyval \<Rightarrow> bool \<Rightarrow> pyval" where
  "store_const_default_none const given = (if given then const else PNone)"

definition store_str :: "string option \<Rightarrow> pyval" where
  "store_str v = (case v of None \<Rightarrow> PNone | Some s \<Rightarrow> PStr s)"

definition store_int :: "int option \<Rightarrow> pyval" where
  "store_int v = (case v of None \<Rightarrow> PNone | Some n \<Rightarrow> PInt n)"

definition append :: "string list \<Rightarrow> pyval" where
  "append vs = (if vs = [] then PNone else PList vs)"

text \<open>
  The namespace \<^verbatim>\<open>parse_args\<close> returns for \<^verbatim>\<open>pyarmor gen ...\<close>: every destination declared
  by \<^verbatim>\<open>main_parser\<close> and \<^verbatim>\<open>gen_parser\<close> with its default or supplied value. The destination of
  \<^verbatim>\<open>--obf-module\<close> is \<^verbatim>\<open>obf_module\<close>, that of \<^verbatim>\<open>--restrict\<close> is \<^verbatim>\<open>restrict_module\<close>.
\<close>

definition gen_namespace :: "gen_cli \<Rightarrow> namespace" where
  "gen_namespace cli =
     [(''version'', store_true (cli_version cli)),
      (''silent'', store_true (cli_silent cli)),
      (''debug'', store_true (cli_debug cli)),
      (''interactive'', store_true (cli_interactive cli)),
      (''home'', store_str (cli_home cli)),
      (''output'', store_str (cli_output cli)),
      (''pack'', store_str (cli_pack cli)),
      (''no_runtime'', store_true (cli_no_runtime cli)),
      (''recursive'', store_true_default_none (cli_recursive cli)),
      (''findall'', store_true_default_none (cli_findall cli)),
      (''includes'', append (cli_includes cli)),
      (''excludes'', append (cli_excludes cli)),
      (''obf_module'', store_int (cli_obf_module cli)),
      (''obf_code'', store_int (cli_obf_code cli)),
      (''no_wrap'', store_true_default_none (cli_no_wrap cli)),
      (''mix_str'', store_true_default_none (cli_mix_str cli)),
      (''mix_name'', store_true_default_none (cli_mix_name cli)),
      (''enable_bcc'', store_true_default_none (cli_enable_bcc cli)),
      (''enable_rft'', store_true_default_none (cli_enable_rft cli)),
      (''enable_jit'', store_true_default_none (cli_enable_jit cli)),
      (''enable_themida'', store_true_default_none (cli_enable_themida cli)),
      (''assert_call'', store_true_default_none (cli_assert_call cli)),
      (''assert_import'', store_true_default_none (cli_assert_import cli)),
      (''enables'', append (cli_enables cli)),
      (''restrict_module'', store_int (cli_restrict_module cli)),
      (''relative_import'', store_const_default_none (PInt 1) (cli_relative_import cli)),
      (''relative'', store_str (cli_relative cli)),
      (''platforms'', append (cli_platforms cli)),
      (''outer'', store_str (cli_outer cli)),
      (''expired'', store_str (cli_expired cli)),
      (''period'', store_int (cli_period cli)),
      (''devices'', append (cli_devices cli)),
      (''bind_interp'', store_str (cli_bind_interp cli)),
      (''hook'', store_str (cli_hook cli)),
      (''inputs'', PList (cli_inputs cli)),
      (''func'', PFunc ''cmd_gen'')]"



section \<open>The context\<close>

text \<open>
  \<^verbatim>\<open>Context\<close> lives in \<^verbatim>\<open>cli/context.py\<close>, outside the file verified here. The record holds
  what this file reads from it: each accessor's value, at the type its use needs.
\<close>

record "context" =
  cmd_options :: options
  runtime_platforms :: "string list option"
  enable_themida :: bool
  pyarmor_platform :: string
  runtime_outer :: "string option"
  runtime_keyfile :: string
  runtime_keyid :: string
  runtime_key :: string
  debug_logfile :: string

section \<open>The options normalizer\<close>

text \<open>The allow-list of \<^verbatim>\<open>format_gen_args\<close>, as the source spells it.\<close>

definition gen_option_names :: "string list" where
  "gen_option_names =
     [''recursive'', ''findall'', ''inputs'', ''output'', ''no_runtime'',
      ''enable_bcc'', ''enable_jit'', ''enable_rft'', ''enable_themida'',
      ''obj_module'', ''obf_code'', ''assert_import'', ''assert_call'',
      ''mix_name'', ''mix_str'', ''relative_import'', ''restrict_module'',
      ''platforms'', ''outer'', ''period'', ''expired'', ''devices'']"

text \<open>
  \<^verbatim>\<open>for x in (...): v = getattr(args, x); if v is not None: options[x] = v\<close>
\<close>

fun copy_set_flags :: "namespace \<Rightarrow> string list \<Rightarrow> options \<Rightarrow> error + options" where
  "copy_set_flags args [] opts = Inr opts"
| "copy_set_flags args (x # xs) opts =
     (case getattr args x of
        Inl e \<Rightarrow> Inl e
      | Inr v \<Rightarrow> copy_set_flags args xs (if v \<noteq> PNone then AList.update x v opts else opts))"

text \<open>\<^verbatim>\<open>for x in args.enables: options['enable_' + x] = True\<close>\<close>

definition enable_all :: "string list \<Rightarrow> options \<Rightarrow> options" where
  "enable_all xs opts = fold (\<lambda>x acc. AList.update (''enable_'' @ x) (PBool True) acc) xs opts"

text \<open>
  \<^verbatim>\<open>restrict = options.get('restrict_module', 0)\<close>,
  \<^verbatim>\<open>if restrict > 1: options['mix_name'] = 1\<close>
\<close>

definition restrict_rule :: "options \<Rightarrow> error + options" where
  "restrict_rule opts =
     bind (py_gt (case map_of opts ''restrict_module'' of None \<Rightarrow> PInt 0 | Some v \<Rightarrow> v) 1)
       (\<lambda>force. Inr (if force then AList.update ''mix_name'' (PInt 1) opts else opts))"

text \<open>\<^verbatim>\<open>if args.enables: for x in args.enables: options['enable_' + x] = True\<close>\<close>

definition enables_rule :: "namespace \<Rightarrow> options \<Rightarrow> error + options" where
  "enables_rule args opts =
     bind (getattr args ''enables'') (\<lambda>enables.
     if truthy enables
     then bind (py_iter enables) (\<lambda>xs. Inr (enable_all xs opts))
     else Inr opts)"

text \<open>\<^verbatim>\<open>if args.relative: options['relative_import'] = args.relative\<close>\<close>

definition relative_rule :: "namespace \<Rightarrow> options \<Rightarrow> error + options" where
  "relative_rule args opts =
     bind (getattr args ''relative'') (\<lambda>relative.
     Inr (if truthy relative then AList.update ''relative_import'' relative opts else opts))"

text \<open>\<^verbatim>\<open>if args.no_wrap: options['wrap_mode'] = 0\<close>\<close>

definition no_wrap_rule :: "namespace \<Rightarrow> options \<Rightarrow> error + options" where
  "no_wrap_rule args opts =
     bind (getattr args ''no_wrap'') (\<lambda>no_wrap.
     Inr (if truthy no_wrap then AList.update ''wrap_mode'' (PInt 0) opts else opts))"

text \<open>
  \<^verbatim>\<open>if args.includes: options['includes'] = ' '.join(args.includes)\<close>, and the same for
  \<^verbatim>\<open>excludes\<close>.
\<close>

definition patterns_rule :: "string \<Rightarrow> namespace \<Rightarrow> options \<Rightarrow> error + options" where
  "patterns_rule name args opts =
     bind (getattr args name) (\<lambda>patterns.
     if truthy patterns
     then bind (py_iter patterns) (\<lambda>xs. Inr (AList.update name (PStr (join '' '' xs)) opts))
     else Inr opts)"

text \<open>\<^verbatim>\<open>format_gen_args(ctx, args)\<close>: the copy loop, then the derived rules in the source's order.\<close>

definition format_gen_args :: "context \<Rightarrow> namespace \<Rightarrow> error + options" where
  "format_gen_args c args =
     bind (copy_set_flags args gen_option_names []) (\<lambda>o1.
     bind (restrict_rule o1) (\<lambda>o2.
     bind (enables_rule args o2) (\<lambda>o3.
     bind (relative_rule args o3) (\<lambda>o4.
     bind (no_wrap_rule args o4) (\<lambda>o5.
     bind (patterns_rule ''includes'' args o5) (\<lambda>o6.
     patterns_rule ''excludes'' args o6))))))"

text \<open>
  What a namespace says about a flag: its value is not the unset sentinel \<^verbatim>\<open>None\<close>; its
  value is true as a condition; the restrict level exceeds 1; the repeatable
  \<^verbatim>\<open>--enable\<close> flag names the feature behind an \<^verbatim>\<open>enable_...\<close> entry.
\<close>

definition attr_set :: "namespace \<Rightarrow> string \<Rightarrow> bool" where
  "attr_set args x = (case map_of args x of None \<Rightarrow> False | Some v \<Rightarrow> v \<noteq> PNone)"

definition attr_truthy :: "namespace \<Rightarrow> string \<Rightarrow> bool" where
  "attr_truthy args x = (case map_of args x of None \<Rightarrow> False | Some v \<Rightarrow> truthy v)"

definition restrict_above_one :: "namespace \<Rightarrow> bool" where
  "restrict_above_one args =
     (case map_of args ''restrict_module'' of Some (PInt n) \<Rightarrow> n > 1 | _ \<Rightarrow> False)"

definition enabled_by_list :: "namespace \<Rightarrow> string \<Rightarrow> bool" where
  "enabled_by_list args x =
     (case map_of args ''enables'' of
        Some (PList fs) \<Rightarrow> x \<in> set (map (\<lambda>f. ''enable_'' @ f) fs)
      | Some (PStr s) \<Rightarrow> x \<in> set (map (\<lambda>ch. ''enable_'' @ [ch]) s)
      | _ \<Rightarrow> False)"

section \<open>External collaborators\<close>

text \<open>
  The file system, \<^verbatim>\<open>Context.push\<close>, \<^verbatim>\<open>Context.read_outer_info\<close> and the generation
  engine \<^verbatim>\<open>Builder\<close> are outside this file: their results are parameters. A call that can
  raise yields \<open>Some e\<close> (or \<open>Inl e\<close>) when it raises \<open>e\<close>.
\<close>

record world =
  path_exists :: "string \<Rightarrow> bool"
  read_outer_info :: "string \<Rightarrow> error option"
  push :: "context \<Rightarrow> options \<Rightarrow> context"
  new_builder :: "context \<Rightarrow> error option"
  generate_runtime_key :: "context \<Rightarrow> string \<Rightarrow> error + string"
  generate_runtime :: "context \<Rightarrow> pyval \<Rightarrow> error option"
  process :: "context \<Rightarrow> options \<Rightarrow> pyval \<Rightarrow> error option"
  makedirs :: "string \<Rightarrow> error option"
  write_file :: "string \<Rightarrow> string \<Rightarrow> error option"

text \<open>
  What a command does besides returning: the calls it makes on its collaborators, in
  order. The events up to a raise are kept.
\<close>

datatype event =
    LogInfo string "pyval list"
  | LogDebugOptions string options
  | Push options
  | NewBuilder
  | GenerateRuntimeKey string
  | GenerateRuntime pyval
  | Process options pyval
  | MakeDirs string
  | WriteFile string string

type_synonym 'a io = "(error + 'a) \<times> event list"

definition io_lift :: "error + 'a \<Rightarrow> 'a io" where
  "io_lift r = (r, [])"

definition io_emit :: "event \<Rightarrow> unit io" where
  "io_emit ev = (Inr (), [ev])"

definition io_call :: "event \<Rightarrow> error option \<Rightarrow> unit io" where
  "io_call ev r = ((case r of None \<Rightarrow> Inr () | Some e \<Rightarrow> Inl e), [ev])"

definition io_call_result :: "event \<Rightarrow> error + 'a \<Rightarrow> 'a io" where
  "io_call_result ev r = (r, [ev])"

definition io_bind :: "'a io \<Rightarrow> ('a \<Rightarrow> 'b io) \<Rightarrow> 'b io" where
  "io_bind m f =
     (case m of
        (Inl e, t) \<Rightarrow> (Inl e, t)
      | (Inr v, t) \<Rightarrow> (case f v of (r, t') \<Rightarrow> (r, t @ t')))"

text \<open>
  The events that are work of the generation engine or of a handler, as opposed to
  logging and the overlay; and the event of full obfuscation.
\<close>

fun handler_work :: "event \<Rightarrow> bool" where
  "handler_work (LogInfo f vs) = False"
| "handler_work (LogDebugOptions f opts) = False"
| "handler_work (Push opts) = False"
| "handler_work ev = True"


section \<open>The cross-field validator\<close>

definition truthy_str :: "string option \<Rightarrow> bool" where
  "truthy_str v = (case v of None \<Rightarrow> False | Some s \<Rightarrow> s \<noteq> [])"

definition truthy_list :: "string list option \<Rightarrow> bool" where
  "truthy_list v = (case v of None \<Rightarrow> False | Some xs \<Rightarrow> xs \<noteq> [])"

definition themida_error :: error where
  "themida_error = CliError (Plain ''--enable_themida only works for Windows'') []"

definition no_runtime_error :: error where
  "no_runtime_error = CliError (Plain ''--no_runtime need pass outer key by --outer'') []"

definition no_runtime_key_error :: "string \<Rightarrow> error" where
  \<open>no_runtime_key_error outer = CliError (Plain ''no runtime key in "%s"'') [PStr outer]\<close>

definition no_outer_key_error :: "string \<Rightarrow> error" where
  \<open>no_outer_key_error outer =
     CliError (Plain ''no outer key "%s" found, please generated it by "pyarmor gen key"'')
       [PStr outer]\<close>

text \<open>The condition of the first rule of \<^verbatim>\<open>check_gen_context\<close>.\<close>

definition windows_only_violation :: "context \<Rightarrow> bool" where
  "windows_only_violation c =
     (truthy_list (runtime_platforms c)
      \<and> enable_themida c \<and> \<not> startswith (pyarmor_platform c) ''win'')"

definition check_gen_context :: "world \<Rightarrow> context \<Rightarrow> error + unit" where
  "check_gen_context w c =
     (if truthy_list (runtime_platforms c)
         \<and> enable_themida c \<and> \<not> startswith (pyarmor_platform c) ''win''
      then Inl themida_error
      else
        (case map_of (cmd_options c) ''no_runtime'' of
           None \<Rightarrow> Inl (KeyError ''no_runtime'')
         | Some no_runtime \<Rightarrow>
             if truthy no_runtime \<and> \<not> truthy_str (runtime_outer c)
             then Inl no_runtime_error
             else if truthy_str (runtime_outer c)
             then
               (let outer = the (runtime_outer c) in
                if path_exists w outer
                then
                  (if \<not> path_exists w (path_join outer (runtime_keyfile c))
                   then Inl (no_runtime_key_error outer)
                   else Inr ())
                else
                  (case read_outer_info w outer of
                     None \<Rightarrow> Inr ()
                   | Some FileNotFoundError \<Rightarrow> Inl (no_outer_key_error outer)
                   | Some e \<Rightarrow> Inl e))
             else Inr ()))"

section \<open>The handlers of the \<^verbatim>\<open>gen\<close> command\<close>

text \<open>\<^verbatim>\<open>options.get('output', 'dist')\<close>\<close>

definition get_output :: "options \<Rightarrow> pyval" where
  "get_output options = (case map_of options ''output'' of None \<Rightarrow> PStr ''dist'' | Some v \<Rightarrow> v)"

text \<open>The log messages of the handlers that contain a double quote.\<close>

definition start_key_message :: string where
  \<open>start_key_message = ''start to generate outer runtime key "%s"''\<close>

definition write_message :: string where
  \<open>write_message = ''write "%s"''\<close>

definition runtime_ok_message :: string where
  \<open>runtime_ok_message = ''generate runtime package to "%s" OK''\<close>

definition too_many_args :: "pyval \<Rightarrow> error" where
  "too_many_args rest = CliError (Interp ''too many args %s'' rest) []"

text \<open>\<^verbatim>\<open>_cmd_gen_key(builder, options)\<close>, with \<open>b\<close> the context of the builder.\<close>

definition cmd_gen_key :: "world \<Rightarrow> context \<Rightarrow> options \<Rightarrow> unit io" where
  "cmd_gen_key w b options =
     io_bind (io_lift (case map_of options ''inputs'' of
                         None \<Rightarrow> Inl (KeyError ''inputs'') | Some v \<Rightarrow> Inr v)) (\<lambda>inputs.
     io_bind (io_lift (py_len inputs)) (\<lambda>n.
     if n > 2
     then io_lift (bind (py_slice_from1 inputs) (\<lambda>rest. Inl (too_many_args rest)))
     else
       io_bind (io_lift (if n = 1 then Inr (runtime_keyid b) else py_item inputs 1)) (\<lambda>keyname.
       io_bind (io_emit (LogInfo start_key_message [PStr keyname])) (\<lambda>_.
       io_bind (io_call_result (GenerateRuntimeKey keyname)
                  (generate_runtime_key w b keyname)) (\<lambda>data.
       io_bind (io_lift (as_str (get_output options))) (\<lambda>output.
       io_bind (io_call (MakeDirs output) (makedirs w output)) (\<lambda>_.
       let target = path_join output keyname in
       io_bind (io_emit (LogInfo ''write %s'' [PStr target])) (\<lambda>_.
       io_bind (io_call (WriteFile target data) (write_file w target data)) (\<lambda>_.
       io_emit (LogInfo ''generate outer runtime key OK'' []))))))))))"

text \<open>\<^verbatim>\<open>_cmd_gen_runtime(builder, options)\<close>\<close>

definition cmd_gen_runtime :: "world \<Rightarrow> context \<Rightarrow> options \<Rightarrow> unit io" where
  "cmd_gen_runtime w b options =
     io_bind (io_lift (case map_of options ''inputs'' of
                         None \<Rightarrow> Inl (KeyError ''inputs'') | Some v \<Rightarrow> Inr v)) (\<lambda>inputs.
     io_bind (io_lift (py_len inputs)) (\<lambda>n.
     if n > 1
     then io_lift (bind (py_slice_from1 inputs) (\<lambda>rest. Inl (too_many_args rest)))
     else
       let output = get_output options in
       io_bind (io_emit (LogInfo ''start to generate runtime package'' [])) (\<lambda>_.
       io_bind (io_call (GenerateRuntime output) (generate_runtime w b output)) (\<lambda>_.
       io_bind (io_lift (as_str output)) (\<lambda>out.
       let keyname = path_join out (runtime_keyfile b) in
       io_bind (io_emit (LogInfo write_message [PStr keyname])) (\<lambda>_.
       io_bind (io_call (WriteFile keyname (runtime_key b)) (write_file w keyname (runtime_key b))) (\<lambda>_.
       io_emit (LogInfo runtime_ok_message [output]))))))))"

text \<open>
  \<^verbatim>\<open>cmd_gen(ctx, args)\<close>: normalize, overlay, validate, construct the builder, dispatch on
  \<^verbatim>\<open>args.inputs[0].lower()\<close>.
\<close>

definition cmd_gen :: "world \<Rightarrow> context \<Rightarrow> namespace \<Rightarrow> unit io" where
  "cmd_gen w c args =
     io_bind (io_lift (format_gen_args c args)) (\<lambda>options.
     io_bind (io_emit (LogDebugOptions ''command options: %s'' options)) (\<lambda>_.
     io_bind (io_emit (Push options)) (\<lambda>_.
     let c' = push w c options in
     io_bind (io_lift (check_gen_context w c')) (\<lambda>_.
     io_bind (io_call NewBuilder (new_builder w c')) (\<lambda>_.
     io_bind (io_lift (bind (getattr args ''inputs'') (\<lambda>inputs. py_item inputs 0))) (\<lambda>first.
     if lower first \<in> set [''key'', ''k'']
     then cmd_gen_key w c' options
     else if lower first \<in> set [''runtime'', ''run'', ''r'']
     then cmd_gen_runtime w c' options
     else
       io_bind (io_lift (getattr args ''pack'')) (\<lambda>pack.
       io_call (Process options pack) (process w c' options pack))))))))"

section \<open>Logging and the top-level handler\<close>

text \<open>
  The part of the \<^verbatim>\<open>logging\<close> module the program uses. A handler has a target, a minimum
  level and a format (the record's fields it prints); a formatter appends the traceback
  of a record that carries exception information, whatever its format. An entry is
  one record as a handler wrote it.
\<close>

datatype sink = Stderr | File string | Null

datatype field = Levelname | Message | Asctime | ProcessId | ProcessName

datatype logmsg = Text string | StrOf error

record log_record =
  levelno :: nat
  msg :: logmsg
  exc_info :: "error option"

record handler =
  target :: sink
  hlevel :: nat
  hformat :: "field list"

type_synonym entry = "field list \<times> log_record"

text \<open>
  The loggers \<^verbatim>\<open>Pyarmor\<close> and \<^verbatim>\<open>Pyarmor.Error\<close> have no level of their own, so the level of
  the root logger is their effective level. \<^verbatim>\<open>Pyarmor\<close> has no handler and propagates to
  the root's handlers.
\<close>

record logging =
  root_level :: nat
  root_handlers :: "handler list"
  error_handlers :: "handler list"
  error_propagate :: bool
  stderr :: "entry list"
  files :: "(string \<times> entry list) list"

definition DEBUG :: nat where "DEBUG = 10"

definition INFO :: nat where "INFO = 20"


definition ERROR :: nat where "ERROR = 40"

definition CRITICAL :: nat where "CRITICAL = 50"

definition write_entry :: "sink \<Rightarrow> entry \<Rightarrow> logging \<Rightarrow> logging" where
  "write_entry s en st =
     (case s of
        Stderr \<Rightarrow> st\<lparr>stderr := stderr st @ [en]\<rparr>
      | File p \<Rightarrow>
          st\<lparr>files := AList.update p ((case map_of (files st) p of None \<Rightarrow> [] | Some es \<Rightarrow> es) @ [en])
                        (files st)\<rparr>
      | Null \<Rightarrow> st)"

definition handle :: "log_record \<Rightarrow> handler \<Rightarrow> logging \<Rightarrow> logging" where
  "handle r h st = (if hlevel h \<le> levelno r then write_entry (target h) (hformat h, r) st else st)"

text \<open>\<^verbatim>\<open>logging.FileHandler(path, mode='w')\<close> opens, and so truncates, the file at once.\<close>

definition open_truncate :: "string \<Rightarrow> logging \<Rightarrow> logging" where
  "open_truncate p st = st\<lparr>files := AList.update p [] (files st)\<rparr>"

text \<open>A call on the logger \<^verbatim>\<open>Pyarmor\<close>.\<close>

definition logger_log :: "log_record \<Rightarrow> logging \<Rightarrow> logging" where
  "logger_log r st =
     (if root_level st \<le> levelno r then fold (handle r) (root_handlers st) st else st)"

text \<open>A call on the logger \<^verbatim>\<open>Pyarmor.Error\<close>.\<close>

definition error_logger_log :: "log_record \<Rightarrow> logging \<Rightarrow> logging" where
  "error_logger_log r st =
     (if root_level st \<le> levelno r
      then fold (handle r)
             (error_handlers st @ (if error_propagate st then root_handlers st else [])) st
      else st)"

definition console_handler :: handler where
  "console_handler = \<lparr>target = Stderr, hlevel = 0, hformat = [Levelname, Message]\<rparr>"

definition error_file_handler :: handler where
  "error_file_handler =
     \<lparr>target = File ''pyarmor.error.log'', hlevel = 0, hformat = [ProcessId, ProcessName, Asctime]\<rparr>"

definition null_handler :: handler where
  "null_handler = \<lparr>target = Null, hlevel = 0, hformat = []\<rparr>"

definition debug_file_handler :: "string \<Rightarrow> handler" where
  "debug_file_handler p = \<lparr>target = File p, hlevel = DEBUG, hformat = [Asctime, Message]\<rparr>"

text \<open>\<^verbatim>\<open>logging.basicConfig(level=logging.INFO, format='%(levelname)-8s %(message)s')\<close>\<close>

definition basicConfig :: "logging \<Rightarrow> logging" where
  "basicConfig st =
     (if root_handlers st = []
      then st\<lparr>root_level := INFO, root_handlers := [console_handler]\<rparr>
      else st)"


definition log_settings :: "context \<Rightarrow> namespace \<Rightarrow> logging \<Rightarrow> error + logging" where
  "log_settings c args st =
     bind (getattr args ''debug'') (\<lambda>debug.
     let st1 =
       (if truthy debug
        then (open_truncate (debug_logfile c) (st\<lparr>root_level := DEBUG\<rparr>))
               \<lparr>root_handlers := root_handlers st @ [debug_file_handler (debug_logfile c)]\<rparr>
        else st) in
     bind (getattr args ''silent'') (\<lambda>silent.
     Inr (if truthy silent then st1\<lparr>root_level := 100\<rparr> else st1)))"

definition pointer_record :: log_record where
  "pointer_record =
     \<lparr>levelno = CRITICAL, msg = Text ''unknown error, please check pyarmor.error.log'',
      exc_info = None\<rparr>"

definition exception_record :: "error \<Rightarrow> log_record" where
  "exception_record e = \<lparr>levelno = ERROR, msg = StrOf e, exc_info = Some e\<rparr>"

definition error_record :: "error \<Rightarrow> log_record" where
  "error_record e = \<lparr>levelno = ERROR, msg = StrOf e, exc_info = None\<rparr>"

definition log_exception :: "error \<Rightarrow> logging \<Rightarrow> logging" where
  "log_exception e st =
     (let st1 = logger_log pointer_record st;
          st2 = open_truncate ''pyarmor.error.log'' st1;
          st3 = st2\<lparr>error_propagate := False\<rparr>;
          st4 = st3\<lparr>error_handlers := error_handlers st3 @ [null_handler]\<rparr>;
          st5 = st4\<lparr>error_handlers := error_handlers st4 @ [error_file_handler]\<rparr>
      in error_logger_log (exception_record e) st5)"

text \<open>
  How \<^verbatim>\<open>main_entry\<close> ends: it returns, it raises an \<^verbatim>\<open>Exception\<close>, or it leaves through
  \<^verbatim>\<open>SystemExit\<close> (argparse's \<^verbatim>\<open>parser.exit\<close> and \<^verbatim>\<open>parser.error\<close>), which \<^verbatim>\<open>except Exception\<close>
  does not catch.
\<close>

datatype outcome = Returned | Raised error | SystemExit nat

text \<open>
  \<^verbatim>\<open>main()\<close>, over the behaviour of \<^verbatim>\<open>main_entry(sys.argv[1:])\<close> on the logging state; the
  result is the exit status of the process and the final logging state.
\<close>

definition main :: "(logging \<Rightarrow> outcome \<times> logging) \<Rightarrow> logging \<Rightarrow> nat \<times> logging" where
  "main main_entry st0 =
     (case main_entry (basicConfig st0) of
        (Returned, st) \<Rightarrow> (0, st)
      | (SystemExit code, st) \<Rightarrow> (code, st)
      | (Raised e, st) \<Rightarrow> (2, logger_log (error_record e) (log_exception e st)))"

section \<open>Example inputs\<close>

text \<open>The command line \<^verbatim>\<open>pyarmor gen foo.py\<close>: no flag given.\<close>

definition plain_cli :: gen_cli where
  "plain_cli =
     \<lparr>cli_version = False, cli_silent = False, cli_debug = False, cli_interactive = False,
      cli_home = None, cli_output = None, cli_pack = None, cli_no_runtime = False,
      cli_recursive = False, cli_findall = False, cli_includes = [], cli_excludes = [],
      cli_obf_module = None, cli_obf_code = None, cli_no_wrap = False, cli_mix_str = False,
      cli_mix_name = False, cli_enable_bcc = False, cli_enable_rft = False,
      cli_enable_jit = False, cli_enable_themida = False, cli_assert_call = False,
      cli_assert_import = False, cli_enables = [], cli_restrict_module = None,
      cli_relative_import = False, cli_relative = None, cli_platforms = [], cli_outer = None,
      cli_expired = None, cli_period = None, cli_devices = [], cli_bind_interp = None,
      cli_hook = None, cli_inputs = [''foo.py'']\<rparr>"

text \<open>
  A namespace that also carries the attribute \<^verbatim>\<open>obj_module\<close> the normalizer reads (the
  parser's namespace has \<^verbatim>\<open>obf_module\<close> only).
\<close>

definition with_obj_module :: "namespace \<Rightarrow> namespace" where
  "with_obj_module args = (''obj_module'', PNone) # args"

definition linux_ctx :: "context" where
  "linux_ctx =
     \<lparr>cmd_options = [(''no_runtime'', PBool False)], runtime_platforms = None,
      enable_themida = False, pyarmor_platform = ''linux.x86_64'', runtime_outer = None,
      runtime_keyfile = ''pyarmor.rkey'', runtime_keyid = ''pyarmor.rkey'',
      runtime_key = ''KEY'', debug_logfile = ''pyarmor.debug.log''\<rparr>"

text \<open>
  An example overlay, standing for \<^verbatim>\<open>Context.push\<close> in the example world: it stores the
  options and reads the outer key, the target platforms and the Windows-only toggle from
  them. The example world has an empty file system, knows no registered outer key, and
  all its other collaborators succeed.
\<close>

definition overlay :: "context \<Rightarrow> options \<Rightarrow> context" where
  "overlay c options =
     c\<lparr>cmd_options := options,
       runtime_outer := (case map_of options ''outer'' of Some (PStr s) \<Rightarrow> Some s | _ \<Rightarrow> None),
       runtime_platforms := (case map_of options ''platforms'' of Some (PList xs) \<Rightarrow> Some xs | _ \<Rightarrow> None),
       enable_themida := (case map_of options ''enable_themida'' of Some v \<Rightarrow> truthy v | None \<Rightarrow> False)\<rparr>"

definition quiet_world :: world where
  "quiet_world =
     \<lparr>path_exists = (\<lambda>p. False),
      read_outer_info = (\<lambda>name. Some FileNotFoundError),
      push = overlay,
      new_builder = (\<lambda>c. None),
      generate_runtime_key = (\<lambda>c name. Inr ''DATA''),
      generate_runtime = (\<lambda>c output. None),
      process = (\<lambda>c options pack. None),
      makedirs = (\<lambda>p. None),
      write_file = (\<lambda>p d. None)\<rparr>"

section \<open>Properties of the options normalizer\<close>

text \<open>
  The allow-list names \<^verbatim>\<open>obj_module\<close>, an attribute no parsed namespace has: on every
  namespace of the parser the copy loop raises \<^verbatim>\<open>AttributeError\<close> at its tenth name, before
  any derived rule runs.
\<close>

lemma format_gen_args_gen_namespace:
  "format_gen_args c (gen_namespace cli) = Inl (AttributeError ''obj_module'')"
  by (simp add: format_gen_args_def gen_option_names_def gen_namespace_def getattr_def bind_def
      store_true_def store_true_default_none_def store_str_def)

lemma bind_Inr:
  "bind r f = Inr v \<Longrightarrow> \<exists>u. r = Inr u \<and> f u = Inr v"
  by (cases r) (simp_all add: bind_def)

lemma copy_set_flags_lookup:
  "copy_set_flags args xs opts = Inr r \<Longrightarrow>
   map_of r x =
     (if x \<in> set xs \<and> map_of args x \<noteq> Some PNone then map_of args x else map_of opts x)"
proof (induction xs arbitrary: opts)
  case Nil
  then show ?case by simp
next
  case (Cons y ys)
  then show ?case
    by (auto simp: getattr_def update_conv' split: option.splits if_splits)
qed

lemma copy_set_flags_present:
  "copy_set_flags args xs opts = Inr r \<Longrightarrow> x \<in> set xs \<Longrightarrow> map_of args x \<noteq> None"
  by (induction xs arbitrary: opts) (auto simp: getattr_def split: option.splits if_splits)

lemma enable_all_lookup:
  "map_of (enable_all xs opts) x =
     (if \<exists>f \<in> set xs. x = ''enable_'' @ f then Some (PBool True) else map_of opts x)"
  unfolding enable_all_def
  by (induction xs arbitrary: opts) (auto simp: update_conv')

lemma restrict_rule_lookup:
  "restrict_rule opts = Inr r \<Longrightarrow>
   map_of r x =
     (if x = ''mix_name'' \<and> py_gt (case map_of opts ''restrict_module'' of None \<Rightarrow> PInt 0 | Some v \<Rightarrow> v) 1 = Inr True
      then Some (PInt 1) else map_of opts x)"
  by (auto simp: restrict_rule_def update_conv' dest!: bind_Inr split: if_splits)

lemma enables_rule_lookup:
  "enables_rule args opts = Inr r \<Longrightarrow>
   map_of r x =
     (if \<exists>en xs. getattr args ''enables'' = Inr en \<and> truthy en \<and> py_iter en = Inr xs
            \<and> (\<exists>f \<in> set xs. x = ''enable_'' @ f)
      then Some (PBool True) else map_of opts x)"
  by (auto simp: enables_rule_def enable_all_lookup dest!: bind_Inr split: if_splits)

lemma relative_rule_lookup:
  "relative_rule args opts = Inr r \<Longrightarrow>
   map_of r x =
     (if x = ''relative_import'' \<and> (\<exists>v. getattr args ''relative'' = Inr v \<and> truthy v)
      then Some (projr (getattr args ''relative'')) else map_of opts x)"
  by (auto simp: relative_rule_def update_conv' dest!: bind_Inr split: if_splits)

lemma no_wrap_rule_lookup:
  "no_wrap_rule args opts = Inr r \<Longrightarrow> x \<noteq> ''wrap_mode'' \<Longrightarrow> map_of r x = map_of opts x"
  by (auto simp: no_wrap_rule_def update_conv' dest!: bind_Inr split: if_splits)

lemma patterns_rule_lookup:
  "patterns_rule name args opts = Inr r \<Longrightarrow> x \<noteq> name \<Longrightarrow> map_of r x = map_of opts x"
  by (auto simp: patterns_rule_def update_conv' dest!: bind_Inr split: if_splits)

lemma format_gen_args_stages:
  assumes "format_gen_args c args = Inr opts"
  obtains o1 o2 o3 o4 o5 o6 where
    "copy_set_flags args gen_option_names [] = Inr o1"
    "restrict_rule o1 = Inr o2"
    "enables_rule args o2 = Inr o3"
    "relative_rule args o3 = Inr o4"
    "no_wrap_rule args o4 = Inr o5"
    "patterns_rule ''includes'' args o5 = Inr o6"
    "patterns_rule ''excludes'' args o6 = Inr opts"
  using assms unfolding format_gen_args_def
  by (auto dest!: bind_Inr)



lemma format_gen_args_lookup:
  assumes "format_gen_args c args = Inr opts"
    and "x \<in> set gen_option_names"
  shows "map_of opts x =
     (if x = ''relative_import'' \<and> attr_truthy args ''relative'' then map_of args ''relative''
      else if enabled_by_list args x then Some (PBool True)
      else if x = ''mix_name'' \<and> restrict_above_one args then Some (PInt 1)
      else if attr_set args x then map_of args x
      else None)"
proof -
  from assms(1) obtain o1 o2 o3 o4 o5 o6 where
    s1: "copy_set_flags args gen_option_names [] = Inr o1" and
    s2: "restrict_rule o1 = Inr o2" and
    s3: "enables_rule args o2 = Inr o3" and
    s4: "relative_rule args o3 = Inr o4" and
    s5: "no_wrap_rule args o4 = Inr o5" and
    s6: "patterns_rule ''includes'' args o5 = Inr o6" and
    s7: "patterns_rule ''excludes'' args o6 = Inr opts"
    by (rule format_gen_args_stages)
  have names: "x \<noteq> ''wrap_mode''" "x \<noteq> ''includes''" "x \<noteq> ''excludes''"
    using assms(2) by (auto simp: gen_option_names_def)
  have l1: "map_of o1 x = (if attr_set args x then map_of args x else None)"
    using copy_set_flags_lookup [OF s1, of x] copy_set_flags_present [OF s1 assms(2)] assms(2)
    by (auto simp: attr_set_def split: option.splits)
  have r1: "map_of o1 ''restrict_module'' =
      (if attr_set args ''restrict_module'' then map_of args ''restrict_module'' else None)"
    using copy_set_flags_lookup [OF s1, of "''restrict_module''"]
    by (auto simp: attr_set_def gen_option_names_def split: option.splits)
  have force: "(py_gt (case map_of o1 ''restrict_module'' of None \<Rightarrow> PInt 0 | Some v \<Rightarrow> v) 1 = Inr True)
      = restrict_above_one args"
    using s2 r1
    by (auto simp: restrict_rule_def restrict_above_one_def attr_set_def
        dest!: bind_Inr split: option.splits pyval.splits if_splits)
  have l2: "map_of o2 x = (if x = ''mix_name'' \<and> restrict_above_one args then Some (PInt 1) else map_of o1 x)"
    using restrict_rule_lookup [OF s2, of x] force by simp
  have en: "(\<exists>en xs. getattr args ''enables'' = Inr en \<and> truthy en \<and> py_iter en = Inr xs
            \<and> (\<exists>f \<in> set xs. x = ''enable_'' @ f)) = enabled_by_list args x"
    using s3
    by (auto simp: enables_rule_def enabled_by_list_def getattr_def
        dest!: bind_Inr split: option.splits pyval.splits if_splits)
  have l3: "map_of o3 x = (if enabled_by_list args x then Some (PBool True) else map_of o2 x)"
    using enables_rule_lookup [OF s3, of x] en by simp
  have rel: "(\<exists>v. getattr args ''relative'' = Inr v \<and> truthy v) = attr_truthy args ''relative''"
    "attr_truthy args ''relative'' \<Longrightarrow> Some (projr (getattr args ''relative'')) = map_of args ''relative''"
    by (auto simp: getattr_def attr_truthy_def split: option.splits)
  have l4: "map_of o4 x = (if x = ''relative_import'' \<and> attr_truthy args ''relative''
      then map_of args ''relative'' else map_of o3 x)"
    using relative_rule_lookup [OF s4, of x] rel by auto
  have l5: "map_of o5 x = map_of o4 x"
    using s5 names(1) by (rule no_wrap_rule_lookup)
  have l6: "map_of o6 x = map_of o5 x"
    using s6 names(2) by (rule patterns_rule_lookup)
  have l7: "map_of opts x = map_of o6 x"
    using s7 names(3) by (rule patterns_rule_lookup)
  show ?thesis
    by (simp only: l7 l6 l5 l4 l3 l2 l1)
qed



lemma enabled_by_list_prefix:
  "enabled_by_list args x \<Longrightarrow> take 7 x = ''enable_''"
  by (auto simp: enabled_by_list_def split: option.splits pyval.splits)

text \<open>The restrict rule, on a call that returns: level 2 forces the name-mixing entry to 1.\<close>

lemma format_gen_args_restrict_two:
  assumes "format_gen_args c args = Inr opts"
    and "map_of args ''restrict_module'' = Some (PInt 2)"
  shows "map_of opts ''mix_name'' = Some (PInt 1)"
proof -
  have "\<not> enabled_by_list args ''mix_name''"
    using enabled_by_list_prefix [of args "''mix_name''"] by auto
  moreover have "restrict_above_one args"
    using assms(2) by (simp add: restrict_above_one_def)
  moreover have "''mix_name'' \<in> set gen_option_names"
    by (simp add: gen_option_names_def)
  ultimately show ?thesis
    using format_gen_args_lookup [OF assms(1), of "''mix_name''"] by simp
qed

text \<open>Below level 2 the name-mixing entry is the flag's own: present when the flag was set.\<close>

lemma format_gen_args_restrict_low:
  assumes "format_gen_args c args = Inr opts"
    and "map_of args ''restrict_module'' \<in> {Some PNone, Some (PInt 0), Some (PInt 1)}"
  shows "map_of opts ''mix_name'' =
     (if attr_set args ''mix_name'' then map_of args ''mix_name'' else None)"
proof -
  have "\<not> enabled_by_list args ''mix_name''"
    using enabled_by_list_prefix [of args "''mix_name''"] by auto
  moreover have "\<not> restrict_above_one args"
    using assms(2) by (auto simp: restrict_above_one_def)
  moreover have "''mix_name'' \<in> set gen_option_names"
    by (simp add: gen_option_names_def)
  ultimately show ?thesis
    using format_gen_args_lookup [OF assms(1), of "''mix_name''"] by simp
qed

text \<open>
  C4. For every parsed generation argument set with restrict level 2 the normalizer
  should return options whose name-mixing entry is true. The code does not get there:
  for every command line with \<^verbatim>\<open>--restrict 2\<close> the namespace of the parser lacks the
  attribute \<^verbatim>\<open>obj_module\<close> that the allow-list names, and \<^verbatim>\<open>format_gen_args\<close> raises
  \<^verbatim>\<open>AttributeError\<close> instead of returning options.
\<close>

theorem format_gen_args_restrict_two_raises:
  "format_gen_args c (gen_namespace (cli\<lparr>cli_restrict_module := Some 2\<rparr>))
     = Inl (AttributeError ''obj_module'')"
  by (rule format_gen_args_gen_namespace)









section \<open>Properties of validation, dispatch and the handlers\<close>

lemma cmd_gen_normalizer_raises:
  "format_gen_args c args = Inl e \<Longrightarrow> cmd_gen w c args = (Inl e, [])"
  by (simp add: cmd_gen_def io_bind_def io_lift_def)

lemma cmd_gen_validation_raises:
  "format_gen_args c args = Inr options \<Longrightarrow> check_gen_context w (push w c options) = Inl e \<Longrightarrow>
   cmd_gen w c args = (Inl e, [LogDebugOptions ''command options: %s'' options, Push options])"
  by (simp add: cmd_gen_def io_bind_def io_lift_def io_emit_def Let_def)

lemma cmd_gen_handler_work:
  assumes "\<exists>ev \<in> set (snd (cmd_gen w c args)). handler_work ev"
  shows "\<exists>options. format_gen_args c args = Inr options
           \<and> check_gen_context w (push w c options) = Inr ()"
proof (cases "format_gen_args c args")
  case (Inl e)
  then show ?thesis using assms by (simp add: cmd_gen_normalizer_raises)
next
  case (Inr options)
  show ?thesis
  proof (cases "check_gen_context w (push w c options)")
    case (Inl e)
    then show ?thesis using assms Inr by (simp add: cmd_gen_validation_raises)
  next
    case (Inr u)
    then show ?thesis using \<open>format_gen_args c args = Inr options\<close> by simp
  qed
qed


lemma check_gen_context_first_rule:
  "check_gen_context w c =
     (if windows_only_violation c then Inl themida_error
      else check_gen_context w (c\<lparr>enable_themida := False\<rparr>))"
  by (auto simp: check_gen_context_def windows_only_violation_def Let_def split: option.splits)




text \<open>
  C5 (as the code has it). In a context where the Windows-only toggle is set: if a
  target platform is configured and the platform of the context does not start with
  \<^verbatim>\<open>win\<close>, validation raises the usage error of the toggle, and a \<^verbatim>\<open>gen\<close> command whose
  overlay yields that context ends with this error after logging and the overlay only;
  otherwise, in particular when no target platform is configured, the toggle changes
  nothing in the validation.
\<close>

theorem check_gen_context_windows_only:
  assumes "enable_themida c"
  shows "(truthy_list (runtime_platforms c) \<and> \<not> startswith (pyarmor_platform c) ''win'' \<longrightarrow>
            check_gen_context w c = Inl themida_error
            \<and> (\<forall>c0 args options.
                  format_gen_args c0 args = Inr options \<and> push w c0 options = c \<longrightarrow>
                  cmd_gen w c0 args =
                    (Inl themida_error,
                     [LogDebugOptions ''command options: %s'' options, Push options])))
         \<and> (\<not> (truthy_list (runtime_platforms c) \<and> \<not> startswith (pyarmor_platform c) ''win'') \<longrightarrow>
              check_gen_context w c = check_gen_context w (c\<lparr>enable_themida := False\<rparr>))"
proof -
  have viol: "windows_only_violation c =
      (truthy_list (runtime_platforms c) \<and> \<not> startswith (pyarmor_platform c) ''win'')"
    using assms by (simp add: windows_only_violation_def)
  have first: "truthy_list (runtime_platforms c) \<and> \<not> startswith (pyarmor_platform c) ''win'' \<Longrightarrow>
      check_gen_context w c = Inl themida_error"
    using check_gen_context_first_rule [of w c] viol by simp
  have cmd: "truthy_list (runtime_platforms c) \<and> \<not> startswith (pyarmor_platform c) ''win'' \<Longrightarrow>
      format_gen_args c0 args = Inr options \<and> push w c0 options = c \<Longrightarrow>
      cmd_gen w c0 args =
        (Inl themida_error, [LogDebugOptions ''command options: %s'' options, Push options])"
    for c0 args options
    using first cmd_gen_validation_raises [of c0 args options w themida_error] by simp
  have rest: "\<not> (truthy_list (runtime_platforms c) \<and> \<not> startswith (pyarmor_platform c) ''win'') \<Longrightarrow>
      check_gen_context w c = check_gen_context w (c\<lparr>enable_themida := False\<rparr>)"
    using check_gen_context_first_rule [of w c] viol by auto
  show ?thesis
    using first cmd rest by blast
qed

lemma format_gen_args_themida_cli:
  "format_gen_args linux_ctx (with_obj_module (gen_namespace
      (plain_cli\<lparr>cli_enable_themida := True, cli_platforms := [''linux.x86_64'']\<rparr>)))
     = Inr [(''inputs'', PList [''foo.py'']), (''no_runtime'', PBool False),
            (''enable_themida'', PBool True), (''platforms'', PList [''linux.x86_64''])]"
  by code_simp

theorem check_gen_context_windows_only_witness:
  "enable_themida (overlay linux_ctx
      [(''inputs'', PList [''foo.py'']), (''no_runtime'', PBool False),
       (''enable_themida'', PBool True), (''platforms'', PList [''linux.x86_64''])])
   \<and> check_gen_context quiet_world (overlay linux_ctx
        [(''inputs'', PList [''foo.py'']), (''no_runtime'', PBool False),
         (''enable_themida'', PBool True), (''platforms'', PList [''linux.x86_64''])])
       = Inl themida_error
   \<and> cmd_gen quiet_world linux_ctx (with_obj_module (gen_namespace
        (plain_cli\<lparr>cli_enable_themida := True, cli_platforms := [''linux.x86_64'']\<rparr>)))
       = (Inl themida_error,
          [LogDebugOptions ''command options: %s''
             [(''inputs'', PList [''foo.py'']), (''no_runtime'', PBool False),
              (''enable_themida'', PBool True), (''platforms'', PList [''linux.x86_64''])],
           Push [(''inputs'', PList [''foo.py'']), (''no_runtime'', PBool False),
                 (''enable_themida'', PBool True), (''platforms'', PList [''linux.x86_64''])]])"
proof -
  let ?opts = "[(''inputs'', PList [''foo.py'']), (''no_runtime'', PBool False),
       (''enable_themida'', PBool True), (''platforms'', PList [''linux.x86_64''])]"
  have en: "enable_themida (overlay linux_ctx ?opts)"
    by code_simp
  have plat: "truthy_list (runtime_platforms (overlay linux_ctx ?opts))
      \<and> \<not> startswith (pyarmor_platform (overlay linux_ctx ?opts)) ''win''"
    by code_simp
  have pushed: "push quiet_world linux_ctx ?opts = overlay linux_ctx ?opts"
    by (simp add: quiet_world_def)
  show ?thesis
    using check_gen_context_windows_only [OF en, of quiet_world] plat pushed
      format_gen_args_themida_cli en
    by blast
qed

text \<open>
  C5 as stated fails: with the toggle set, no target platform configured and a platform
  that is not Windows, validation raises nothing.
\<close>

theorem check_gen_context_windows_only_unchecked:
  "enable_themida (linux_ctx\<lparr>enable_themida := True\<rparr>)
   \<and> runtime_platforms (linux_ctx\<lparr>enable_themida := True\<rparr>) = None
   \<and> \<not> startswith (pyarmor_platform (linux_ctx\<lparr>enable_themida := True\<rparr>)) ''win''
   \<and> check_gen_context quiet_world (linux_ctx\<lparr>enable_themida := True\<rparr>) = Inr ()"
  by code_simp

text \<open>
  C6 (as the code has it). In a context that requests skipping the runtime package
  and has no outer key reference, validation raises a usage error: the one naming the
  missing outer key, unless the Windows-only rule, checked first, raises its own. A
  \<^verbatim>\<open>gen\<close> command whose overlay yields such a context ends with that error, and no command
  does work of the generation engine or of a handler unless the normalizer returned
  and validation passed.
\<close>

theorem check_gen_context_no_runtime:
  assumes "map_of (cmd_options c) ''no_runtime'' = Some v"
    and "truthy v"
    and "\<not> truthy_str (runtime_outer c)"
  shows "check_gen_context w c
           = Inl (if windows_only_violation c then themida_error else no_runtime_error)
         \<and> (\<forall>c0 args options.
               format_gen_args c0 args = Inr options \<and> push w c0 options = c \<longrightarrow>
               fst (cmd_gen w c0 args)
                 = Inl (if windows_only_violation c then themida_error else no_runtime_error))
         \<and> (\<forall>c0 args.
               (\<forall>options. format_gen_args c0 args = Inr options \<longrightarrow> push w c0 options = c) \<longrightarrow>
               \<not> (\<exists>ev \<in> set (snd (cmd_gen w c0 args)). handler_work ev))"
proof -
  have check: "check_gen_context w c
      = Inl (if windows_only_violation c then themida_error else no_runtime_error)"
    using assms by (simp add: check_gen_context_def windows_only_violation_def)
  have result: "format_gen_args c0 args = Inr options \<and> push w c0 options = c \<Longrightarrow>
      fst (cmd_gen w c0 args)
        = Inl (if windows_only_violation c then themida_error else no_runtime_error)"
    for c0 args options
    using check cmd_gen_validation_raises [of c0 args options w] by simp
  have no_work: "\<not> (\<exists>ev \<in> set (snd (cmd_gen w c0 args)). handler_work ev)"
    if all: "\<forall>options. format_gen_args c0 args = Inr options \<longrightarrow> push w c0 options = c"
    for c0 args
  proof
    assume "\<exists>ev \<in> set (snd (cmd_gen w c0 args)). handler_work ev"
    then obtain options where
      "format_gen_args c0 args = Inr options" "check_gen_context w (push w c0 options) = Inr ()"
      using cmd_gen_handler_work by blast
    then show False using all check by simp
  qed
  show ?thesis
    using check result no_work by blast
qed

lemma format_gen_args_no_runtime_cli:
  "format_gen_args linux_ctx (with_obj_module (gen_namespace (plain_cli\<lparr>cli_no_runtime := True\<rparr>)))
     = Inr [(''inputs'', PList [''foo.py'']), (''no_runtime'', PBool True)]"
  by code_simp

theorem check_gen_context_no_runtime_witness:
  "map_of (cmd_options (overlay linux_ctx
       [(''inputs'', PList [''foo.py'']), (''no_runtime'', PBool True)])) ''no_runtime''
     = Some (PBool True)
   \<and> truthy (PBool True)
   \<and> \<not> truthy_str (runtime_outer (overlay linux_ctx
          [(''inputs'', PList [''foo.py'']), (''no_runtime'', PBool True)]))
   \<and> check_gen_context quiet_world (overlay linux_ctx
        [(''inputs'', PList [''foo.py'']), (''no_runtime'', PBool True)]) = Inl no_runtime_error
   \<and> fst (cmd_gen quiet_world linux_ctx
        (with_obj_module (gen_namespace (plain_cli\<lparr>cli_no_runtime := True\<rparr>))))
       = Inl no_runtime_error
   \<and> filter handler_work (snd (cmd_gen quiet_world linux_ctx
        (with_obj_module (gen_namespace (plain_cli\<lparr>cli_no_runtime := True\<rparr>))))) = []"
proof -
  let ?opts = "[(''inputs'', PList [''foo.py'']), (''no_runtime'', PBool True)]"
  let ?args = "with_obj_module (gen_namespace (plain_cli\<lparr>cli_no_runtime := True\<rparr>))"
  have h1: "map_of (cmd_options (overlay linux_ctx ?opts)) ''no_runtime'' = Some (PBool True)"
    by code_simp
  have h2: "truthy (PBool True)"
    by simp
  have h3: "\<not> truthy_str (runtime_outer (overlay linux_ctx ?opts))"
    by code_simp
  have nv: "\<not> windows_only_violation (overlay linux_ctx ?opts)"
    by code_simp
  have pushed: "push quiet_world linux_ctx ?opts = overlay linux_ctx ?opts"
    by (simp add: quiet_world_def)
  have all: "\<forall>options. format_gen_args linux_ctx ?args = Inr options \<longrightarrow>
      push quiet_world linux_ctx options = overlay linux_ctx ?opts"
    using format_gen_args_no_runtime_cli pushed by simp
  note inst = check_gen_context_no_runtime [OF h1 h2 h3, of quiet_world]
  have "\<not> (\<exists>ev \<in> set (snd (cmd_gen quiet_world linux_ctx ?args)). handler_work ev)"
    using inst all by blast
  then have "filter handler_work (snd (cmd_gen quiet_world linux_ctx ?args)) = []"
    by (simp add: filter_empty_conv)
  moreover have "fst (cmd_gen quiet_world linux_ctx ?args) = Inl no_runtime_error"
    using inst format_gen_args_no_runtime_cli pushed nv by simp
  moreover have "check_gen_context quiet_world (overlay linux_ctx ?opts) = Inl no_runtime_error"
    using inst nv by simp
  ultimately show ?thesis
    using h1 h2 h3 by blast
qed

text \<open>
  C6 as stated fails: with the Windows-only toggle set for a configured non-Windows
  target, a context that skips the runtime package without an outer key gets the
  toggle's error, which does not name the missing outer key.
\<close>

theorem check_gen_context_no_runtime_preempted:
  "map_of (cmd_options (linux_ctx\<lparr>cmd_options := [(''no_runtime'', PBool True)],
       enable_themida := True, runtime_platforms := Some [''linux.x86_64'']\<rparr>)) ''no_runtime''
     = Some (PBool True)
   \<and> runtime_outer (linux_ctx\<lparr>cmd_options := [(''no_runtime'', PBool True)],
       enable_themida := True, runtime_platforms := Some [''linux.x86_64'']\<rparr>) = None
   \<and> check_gen_context quiet_world (linux_ctx\<lparr>cmd_options := [(''no_runtime'', PBool True)],
       enable_themida := True, runtime_platforms := Some [''linux.x86_64'']\<rparr>)
     = Inl themida_error
   \<and> themida_error \<noteq> no_runtime_error"
  by code_simp

text \<open>
  C7 (as the code has it). In a context that carries the \<^verbatim>\<open>no_runtime\<close> entry and a
  non-empty outer key reference, and in which the Windows-only rule does not raise: if
  the reference exists as a path, validation passes when the runtime key file exists
  under it and raises a usage error otherwise; if the reference does not exist as a
  path, it is looked up as registered key metadata, validation passes when the lookup
  succeeds, raises the usage error that points to \<^verbatim>\<open>pyarmor gen key\<close> when the lookup
  raises \<^verbatim>\<open>FileNotFoundError\<close>, and lets any other exception of the lookup through.
\<close>

theorem check_gen_context_outer:
  assumes "map_of (cmd_options c) ''no_runtime'' \<noteq> None"
    and "runtime_outer c = Some outer"
    and "outer \<noteq> []"
    and "\<not> windows_only_violation c"
  shows "check_gen_context w c =
     (if path_exists w outer
      then (if path_exists w (path_join outer (runtime_keyfile c))
            then Inr () else Inl (no_runtime_key_error outer))
      else (case read_outer_info w outer of
              None \<Rightarrow> Inr ()
            | Some FileNotFoundError \<Rightarrow> Inl (no_outer_key_error outer)
            | Some e \<Rightarrow> Inl e))"
  using assms
  by (auto simp: check_gen_context_def windows_only_violation_def truthy_str_def Let_def
      split: option.splits)

theorem check_gen_context_outer_witness:
  "map_of (cmd_options (linux_ctx\<lparr>runtime_outer := Some ''keys''\<rparr>)) ''no_runtime'' \<noteq> None
   \<and> runtime_outer (linux_ctx\<lparr>runtime_outer := Some ''keys''\<rparr>) = Some ''keys''
   \<and> \<not> windows_only_violation (linux_ctx\<lparr>runtime_outer := Some ''keys''\<rparr>)
   \<and> check_gen_context (quiet_world\<lparr>path_exists := (\<lambda>p. p = ''keys'')\<rparr>)
        (linux_ctx\<lparr>runtime_outer := Some ''keys''\<rparr>) = Inl (no_runtime_key_error ''keys'')
   \<and> check_gen_context (quiet_world\<lparr>path_exists := (\<lambda>p. p = ''keys'' \<or> p = ''keys/pyarmor.rkey'')\<rparr>)
        (linux_ctx\<lparr>runtime_outer := Some ''keys''\<rparr>) = Inr ()
   \<and> check_gen_context quiet_world (linux_ctx\<lparr>runtime_outer := Some ''keys''\<rparr>)
       = Inl (no_outer_key_error ''keys'')"
proof -
  let ?c = "linux_ctx\<lparr>runtime_outer := Some ''keys''\<rparr>"
  have h1: "map_of (cmd_options ?c) ''no_runtime'' \<noteq> None"
    by code_simp
  have h2: "runtime_outer ?c = Some ''keys''"
    by simp
  have h3: "''keys'' \<noteq> []"
    by simp
  have h4: "\<not> windows_only_violation ?c"
    by code_simp
  note inst = check_gen_context_outer [OF h1 h2 h3 h4]
  have "check_gen_context (quiet_world\<lparr>path_exists := (\<lambda>p. p = ''keys'')\<rparr>) ?c
      = Inl (no_runtime_key_error ''keys'')"
    using inst [of "quiet_world\<lparr>path_exists := (\<lambda>p. p = ''keys'')\<rparr>"]
    by (simp add: path_join_def startswith_def linux_ctx_def)
  moreover have "check_gen_context
      (quiet_world\<lparr>path_exists := (\<lambda>p. p = ''keys'' \<or> p = ''keys/pyarmor.rkey'')\<rparr>) ?c = Inr ()"
    using inst [of "quiet_world\<lparr>path_exists := (\<lambda>p. p = ''keys'' \<or> p = ''keys/pyarmor.rkey'')\<rparr>"]
    by (simp add: path_join_def startswith_def linux_ctx_def)
  moreover have "check_gen_context quiet_world ?c = Inl (no_outer_key_error ''keys'')"
    using inst [of quiet_world] by (simp add: quiet_world_def)
  ultimately show ?thesis
    using h1 h2 h4 by blast
qed

text \<open>
  C7 as stated fails twice for an outer key reference that is not a path: when the
  Windows-only rule raises first, the lookup that would fail is never made and the error
  is the toggle's; and when the lookup raises an exception other than
  \<^verbatim>\<open>FileNotFoundError\<close>, validation raises that exception, not a usage error.
\<close>

theorem check_gen_context_outer_other_errors:
  "runtime_outer (linux_ctx\<lparr>runtime_outer := Some ''keys'', enable_themida := True,
       runtime_platforms := Some [''linux.x86_64'']\<rparr>) = Some ''keys''
   \<and> \<not> path_exists quiet_world ''keys''
   \<and> read_outer_info quiet_world ''keys'' = Some FileNotFoundError
   \<and> check_gen_context quiet_world (linux_ctx\<lparr>runtime_outer := Some ''keys'',
        enable_themida := True, runtime_platforms := Some [''linux.x86_64'']\<rparr>)
       = Inl themida_error
   \<and> themida_error \<noteq> no_outer_key_error ''keys''
   \<and> check_gen_context
        (quiet_world\<lparr>read_outer_info := (\<lambda>name. Some (OtherError ''PermissionError''))\<rparr>)
        (linux_ctx\<lparr>runtime_outer := Some ''keys''\<rparr>)
       = Inl (OtherError ''PermissionError'')"
  by code_simp


lemma cmd_gen_key_too_many:
  assumes "map_of options ''inputs'' = Some (PList (tok # extras))"
    and "2 \<le> length extras"
  shows "cmd_gen_key w b options = (Inl (too_many_args (PList extras)), [])"
  using assms
  by (simp add: cmd_gen_key_def io_bind_def io_lift_def bind_def)

lemma cmd_gen_key_default_start:
  assumes "map_of options ''inputs'' = Some (PList [tok])"
  shows "take 2 (snd (cmd_gen_key w b options)) =
     [LogInfo start_key_message [PStr (runtime_keyid b)], GenerateRuntimeKey (runtime_keyid b)]"
  using assms
  by (simp add: cmd_gen_key_def io_bind_def io_lift_def io_emit_def io_call_result_def
      split: prod.splits sum.splits)

lemma cmd_gen_key_default_success:
  assumes "map_of options ''inputs'' = Some (PList [tok])"
    and "generate_runtime_key w b (runtime_keyid b) = Inr data"
    and "get_output options = PStr output"
    and "makedirs w output = None"
    and "write_file w (path_join output (runtime_keyid b)) data = None"
  shows "cmd_gen_key w b options =
     (Inr (),
      [LogInfo start_key_message [PStr (runtime_keyid b)],
       GenerateRuntimeKey (runtime_keyid b),
       MakeDirs output,
       LogInfo ''write %s'' [PStr (path_join output (runtime_keyid b))],
       WriteFile (path_join output (runtime_keyid b)) data,
       LogInfo ''generate outer runtime key OK'' []])"
  using assms
  by (simp add: cmd_gen_key_def io_bind_def io_lift_def io_emit_def io_call_def
      io_call_result_def Let_def)

text \<open>
  C8. The standalone-key handler, called with the sub-token followed by two or more
  extra tokens, raises the usage error that lists the extra tokens and does nothing
  else; called with the sub-token alone, it takes the key identifier of the context as
  the key name: it asks the engine for the key of that name first and, when the
  collaborators succeed, writes it to the file of that name under the output path.
\<close>

theorem cmd_gen_key_extra_tokens:
  "(map_of options ''inputs'' = Some (PList (tok # extras)) \<and> 2 \<le> length extras \<longrightarrow>
      cmd_gen_key w b options = (Inl (too_many_args (PList extras)), []))
   \<and> (map_of options ''inputs'' = Some (PList [tok]) \<longrightarrow>
        take 2 (snd (cmd_gen_key w b options)) =
          [LogInfo start_key_message [PStr (runtime_keyid b)],
           GenerateRuntimeKey (runtime_keyid b)]
        \<and> (\<forall>data output.
              generate_runtime_key w b (runtime_keyid b) = Inr data
              \<and> get_output options = PStr output
              \<and> makedirs w output = None
              \<and> write_file w (path_join output (runtime_keyid b)) data = None \<longrightarrow>
              cmd_gen_key w b options =
                (Inr (),
                 [LogInfo start_key_message [PStr (runtime_keyid b)],
                  GenerateRuntimeKey (runtime_keyid b),
                  MakeDirs output,
                  LogInfo ''write %s'' [PStr (path_join output (runtime_keyid b))],
                  WriteFile (path_join output (runtime_keyid b)) data,
                  LogInfo ''generate outer runtime key OK'' []])))"
  using cmd_gen_key_too_many [of options tok extras w b]
    cmd_gen_key_default_start [of options tok w b]
    cmd_gen_key_default_success [of options tok w b]
  by blast

theorem cmd_gen_key_extra_tokens_witness:
  "cmd_gen_key quiet_world linux_ctx [(''inputs'', PList [''key'', ''a'', ''b''])]
     = (Inl (too_many_args (PList [''a'', ''b''])), [])
   \<and> cmd_gen_key quiet_world linux_ctx [(''inputs'', PList [''key''])]
     = (Inr (),
        [LogInfo start_key_message [PStr ''pyarmor.rkey''],
         GenerateRuntimeKey ''pyarmor.rkey'',
         MakeDirs ''dist'',
         LogInfo ''write %s'' [PStr ''dist/pyarmor.rkey''],
         WriteFile ''dist/pyarmor.rkey'' ''DATA'',
         LogInfo ''generate outer runtime key OK'' []])"
proof -
  have many: "map_of [(''inputs'', PList [''key'', ''a'', ''b''])] ''inputs''
      = Some (PList (''key'' # [''a'', ''b''])) \<and> 2 \<le> length [''a'', ''b'']"
    by simp
  have one: "map_of [(''inputs'', PList [''key''])] ''inputs'' = Some (PList [''key''])"
    by simp
  have collaborators:
    "generate_runtime_key quiet_world linux_ctx (runtime_keyid linux_ctx) = Inr ''DATA''
     \<and> get_output [(''inputs'', PList [''key''])] = PStr ''dist''
     \<and> makedirs quiet_world ''dist'' = None
     \<and> write_file quiet_world (path_join ''dist'' (runtime_keyid linux_ctx)) ''DATA'' = None"
    by (simp add: quiet_world_def get_output_def)
  have names: "runtime_keyid linux_ctx = ''pyarmor.rkey''"
    "path_join ''dist'' ''pyarmor.rkey'' = ''dist/pyarmor.rkey''"
    by (simp_all add: linux_ctx_def path_join_def startswith_def)
  have "cmd_gen_key quiet_world linux_ctx [(''inputs'', PList [''key'', ''a'', ''b''])]
      = (Inl (too_many_args (PList [''a'', ''b''])), [])"
    using cmd_gen_key_extra_tokens
      [of "[(''inputs'', PList [''key'', ''a'', ''b''])]" "''key''" "[''a'', ''b'']"
        quiet_world linux_ctx] many
    by blast
  moreover have "cmd_gen_key quiet_world linux_ctx [(''inputs'', PList [''key''])]
      = (Inr (),
         [LogInfo start_key_message [PStr (runtime_keyid linux_ctx)],
          GenerateRuntimeKey (runtime_keyid linux_ctx),
          MakeDirs ''dist'',
          LogInfo ''write %s'' [PStr (path_join ''dist'' (runtime_keyid linux_ctx))],
          WriteFile (path_join ''dist'' (runtime_keyid linux_ctx)) ''DATA'',
          LogInfo ''generate outer runtime key OK'' []])"
    using cmd_gen_key_extra_tokens
      [of "[(''inputs'', PList [''key''])]" "''key''" "[]" quiet_world linux_ctx]
      one collaborators
    by blast
  ultimately show ?thesis
    by (simp add: names)
qed




section \<open>Properties of the top-level handler\<close>

lemma handle_config:
  "root_level (handle r h st) = root_level st"
  "root_handlers (handle r h st) = root_handlers st"
  "error_handlers (handle r h st) = error_handlers st"
  "error_propagate (handle r h st) = error_propagate st"
  by (simp_all add: handle_def write_entry_def split: sink.splits)

lemma fold_handle_config:
  "root_level (fold (handle r) hs st) = root_level st"
  "root_handlers (fold (handle r) hs st) = root_handlers st"
  "error_handlers (fold (handle r) hs st) = error_handlers st"
  "error_propagate (fold (handle r) hs st) = error_propagate st"
  by (induction hs arbitrary: st) (simp_all add: handle_config)

lemma fold_handle_stderr:
  "stderr (fold (handle r) hs st) =
     stderr st @ map (\<lambda>h. (hformat h, r))
                   (filter (\<lambda>h. target h = Stderr \<and> hlevel h \<le> levelno r) hs)"
proof (induction hs arbitrary: st)
  case Nil
  then show ?case by simp
next
  case (Cons h hs)
  have "stderr (handle r h st) =
      stderr st @ (if target h = Stderr \<and> hlevel h \<le> levelno r then [(hformat h, r)] else [])"
    by (simp add: handle_def write_entry_def split: sink.splits)
  then show ?case using Cons.IH [of "handle r h st"] by simp
qed

lemma fold_handle_files_other:
  "\<forall>h \<in> set hs. target h \<noteq> File p \<Longrightarrow>
   map_of (files (fold (handle r) hs st)) p = map_of (files st) p"
proof (induction hs arbitrary: st)
  case Nil
  then show ?case by simp
next
  case (Cons h hs)
  have "map_of (files (handle r h st)) p = map_of (files st) p"
    using Cons.prems by (auto simp: handle_def write_entry_def update_conv' split: sink.splits)
  then show ?case using Cons by simp
qed

lemma logger_log_stderr:
  "stderr (logger_log r st) =
     stderr st @ (if root_level st \<le> levelno r
                  then map (\<lambda>h. (hformat h, r))
                         (filter (\<lambda>h. target h = Stderr \<and> hlevel h \<le> levelno r) (root_handlers st))
                  else [])"
  by (simp add: logger_log_def fold_handle_stderr)

lemma logger_log_files_other:
  "\<forall>h \<in> set (root_handlers st). target h \<noteq> File p \<Longrightarrow>
   map_of (files (logger_log r st)) p = map_of (files st) p"
  by (simp add: logger_log_def fold_handle_files_other)

lemma logger_log_config:
  "root_level (logger_log r st) = root_level st"
  "root_handlers (logger_log r st) = root_handlers st"
  "error_handlers (logger_log r st) = error_handlers st"
  by (simp_all add: logger_log_def fold_handle_config)

text \<open>
  What \<^verbatim>\<open>log_exception\<close> leaves behind when the logger \<^verbatim>\<open>Pyarmor.Error\<close> had no handler
  and no root handler writes to the error log: the console gets the pointer line if the
  level admits it, the error log is truncated and gets the record with the traceback if
  the level admits errors.
\<close>

lemma log_exception_effect:
  assumes "error_handlers st = []"
    and "\<forall>h \<in> set (root_handlers st). target h \<noteq> File ''pyarmor.error.log''"
  shows "stderr (log_exception e st) = stderr (logger_log pointer_record st)"
    and "map_of (files (log_exception e st)) ''pyarmor.error.log'' =
           Some (if root_level st \<le> ERROR
                 then [([ProcessId, ProcessName, Asctime], exception_record e)] else [])"
    and "root_level (log_exception e st) = root_level st"
    and "root_handlers (log_exception e st) = root_handlers st"
  using assms
  by (simp_all add: log_exception_def Let_def error_logger_log_def open_truncate_def
      logger_log_config handle_def write_entry_def null_handler_def error_file_handler_def
      exception_record_def update_conv')

text \<open>Silent mode raises the level of the root logger above every severity.\<close>

lemma log_settings_silent:
  assumes "log_settings c args st = Inr st'"
    and "attr_truthy args ''silent''"
  shows "root_level st' = 100"
  using assms
  by (auto simp: log_settings_def Let_def attr_truthy_def getattr_def
      dest!: bind_Inr split: option.splits)

lemma main_raised:
  assumes "main_entry (basicConfig st0) = (Raised e, st)"
  shows "main main_entry st0 = (2, logger_log (error_record e) (log_exception e st))"
  using assms by (simp add: main_def)

text \<open>The same run in silent mode: nothing on the console, an empty error log.\<close>

lemma main_raised_silent:
  assumes "main_entry (basicConfig st0) = (Raised e, st)"
    and "CRITICAL < root_level st"
    and "error_handlers st = []"
    and "\<forall>h \<in> set (root_handlers st). target h \<noteq> File ''pyarmor.error.log''"
  shows "stderr (snd (main main_entry st0)) = stderr st"
    and "map_of (files (snd (main main_entry st0))) ''pyarmor.error.log'' = Some []"
proof -
  have levels: "\<not> root_level st \<le> ERROR" "\<not> root_level st \<le> CRITICAL"
    using assms(2) by (simp_all add: ERROR_def CRITICAL_def)
  have after: "\<forall>h \<in> set (root_handlers (log_exception e st)). target h \<noteq> File ''pyarmor.error.log''"
    using assms(4) log_exception_effect(4) [OF assms(3,4)] by simp
  show "stderr (snd (main main_entry st0)) = stderr st"
    using levels
    by (simp add: main_raised [of main_entry st0 e st, OF assms(1)] logger_log_stderr log_exception_effect [OF assms(3,4)]
        error_record_def pointer_record_def)
  show "map_of (files (snd (main main_entry st0))) ''pyarmor.error.log'' = Some []"
    using levels
    by (simp add: main_raised [of main_entry st0 e st, OF assms(1)] logger_log_files_other [OF after]
        log_exception_effect [OF assms(3,4)])
qed

text \<open>
  C1. A usage error should end the process with a status of its own. In the code one
  handler catches every exception: the exit status is 2 whichever exception
  \<^verbatim>\<open>main_entry\<close> raises, so a \<^verbatim>\<open>CliError\<close> ends the process with the same status as any
  other exception (the handler that would exit with 1 is commented out).
\<close>

theorem main_exit_status:
  "fst (main main_entry st0) =
     (case fst (main_entry (basicConfig st0)) of
        Returned \<Rightarrow> 0
      | Raised e \<Rightarrow> 2
      | SystemExit code \<Rightarrow> code)
   \<and> fst (main (\<lambda>st. (Raised (CliError m vs), before st)) st0)
       = fst (main (\<lambda>st. (Raised (OtherError name), before st)) st0)"
  by (simp add: main_def split: prod.splits outcome.splits)




end
